theory Spec2Isabelle
  imports Main "HOL-Library.AList" "HOL-Library.Multiset"
begin

section \<open>Python strings\<close>

text \<open>
  A Python \<open>str\<close> is modelled as a HOL \<open>string\<close>; a character stands for the code point
  of the same number, so the model covers text over the code points 0 to 255.
\<close>

definition startswith :: "string \<Rightarrow> string \<Rightarrow> bool" where
  "startswith s p = (take (length p) s = p)"

text \<open>\<open>s.replace(old, new)\<close> for a non-empty \<open>old\<close>: every non-overlapping occurrence, from the left.\<close>

function replace_ne :: "string \<Rightarrow> string \<Rightarrow> string \<Rightarrow> string" where
  "replace_ne old new [] = []"
| "replace_ne old new (c # cs) =
     (if old \<noteq> [] \<and> startswith (c # cs) old
      then new @ replace_ne old new (drop (length old) (c # cs))
      else c # replace_ne old new cs)"
  by pat_completeness auto
termination
  by (relation "measure (\<lambda>(old, new, s). length s)") auto

definition py_replace :: "string \<Rightarrow> string \<Rightarrow> string \<Rightarrow> string" where
  "py_replace s old new =
     (if old = [] then new @ concat (map (\<lambda>c. c # new) s) else replace_ne old new s)"

text \<open>\<open>str.isspace\<close> on one character (code points below 256).\<close>

definition is_space :: "char \<Rightarrow> bool" where
  "is_space c = (let n = of_char c :: nat in
     (9 \<le> n \<and> n \<le> 13) \<or> (28 \<le> n \<and> n \<le> 32) \<or> n = 133 \<or> n = 160)"

definition lstrip :: "string \<Rightarrow> string" where
  "lstrip s = dropWhile is_space s"

definition strip :: "string \<Rightarrow> string" where
  "strip s = rev (dropWhile is_space (rev (dropWhile is_space s)))"

text \<open>\<open>re.sub(r'\s+', ' ', text)\<close>: every maximal run of whitespace becomes one space.\<close>

function collapse_ws :: "string \<Rightarrow> string" where
  "collapse_ws [] = []"
| "collapse_ws (c # cs) =
     (if is_space c then CHR '' '' # collapse_ws (dropWhile is_space cs)
      else c # collapse_ws cs)"
  by pat_completeness auto
termination
  by (relation "measure length") (auto simp: less_Suc_eq_le length_dropWhile_le)

text \<open>\<open>str.lower\<close> on code points below 256.\<close>

definition lower_char :: "char \<Rightarrow> char" where
  "lower_char c = (let n = of_char c :: nat in
     if (65 \<le> n \<and> n \<le> 90) \<or> (192 \<le> n \<and> n \<le> 222 \<and> n \<noteq> 215) then char_of (n + 32) else c)"

definition lower :: "string \<Rightarrow> string" where
  "lower s = map lower_char s"

text \<open>\<open>term in content\<close> on strings: \<open>term\<close> occurs as a substring.\<close>

fun contains :: "string \<Rightarrow> string \<Rightarrow> bool" where
  "contains [] t = (t = [])"
| "contains (c # cs) t = (startswith (c # cs) t \<or> contains cs t)"

text \<open>\<open>s.split(sep)\<close> for a one-character separator.\<close>

fun split_on :: "char \<Rightarrow> string \<Rightarrow> string list" where
  "split_on sep [] = [[]]"
| "split_on sep (c # cs) =
     (if c = sep then [] # split_on sep cs
      else (case split_on sep cs of [] \<Rightarrow> [[c]] | w # ws \<Rightarrow> (c # w) # ws))"

text \<open>\<open>sep.join(parts)\<close>.\<close>

fun join :: "string \<Rightarrow> string list \<Rightarrow> string" where
  "join sep [] = []"
| "join sep [p] = p"
| "join sep (p # q # ps) = p @ sep @ join sep (q # ps)"

text \<open>\<open>str(n)\<close> for a non-negative integer.\<close>

definition digit_char :: "nat \<Rightarrow> char" where
  "digit_char d = char_of (48 + d)"

fun str_nat :: "nat \<Rightarrow> string" where
  "str_nat n = (if n < 10 then [digit_char n] else str_nat (n div 10) @ [digit_char (n mod 10)])"

declare str_nat.simps [simp del]

text \<open>A path is the list of its components.\<close>

text \<open>\<open>Path.name\<close>: the final component (empty for the empty path).\<close>

definition path_name :: "string list \<Rightarrow> string" where
  "path_name ps = (if ps = [] then [] else last ps)"

definition path_str :: "string list \<Rightarrow> string" where
  "path_str ps = join ''/'' ps"

section \<open>Documents\<close>

text \<open>
  An attribute value as BeautifulSoup holds it: a string, a list of strings for a
  whitespace-separated attribute (\<open>class\<close>, \<open>rel\<close>, ...), or Python's \<open>True\<close> (the code sets
  \<open>defer\<close> to it). The attributes of a tag are a dictionary in insertion order.
\<close>

datatype attr_value = Str string | Lst "string list" | PyTrue

type_synonym attrs = "(string \<times> attr_value) list"

text \<open>The classes of strings a parsed tree holds.\<close>

datatype string_type =
  NavigableString | CData | Comment | Doctype | Declaration | ProcessingInstruction
  | Script | Stylesheet | TemplateString | RubyTextString | RubyParenthesisString

text \<open>
  A node is a string or a tag. A tag carries the identity of its Python object (a number,
  as \<open>id(tag)\<close> would be), its name, its attributes and its children: the code keeps
  references to tags while it moves them, and a reference is the identity.
\<close>

datatype node = PyStr string_type string | Tag nat string attrs "node list"

text \<open>
  The objects of one conversion: the contents of the \<open>BeautifulSoup\<close> object, the trees that
  hang in no document (tags made by \<open>new_tag\<close> and not yet placed, and whatever was extracted),
  and the identity the next new tag gets.
\<close>

record soup =
  doc :: "node list"
  detached :: "node list"
  next_id :: nat

datatype error = AttributeError | TypeError | ValueError | OSError | ParserError

fun children :: "node \<Rightarrow> node list" where
  "children (Tag i n a cs) = cs"
| "children (PyStr k t) = []"


fun tag_name :: "node \<Rightarrow> string" where
  "tag_name (Tag i n a cs) = n"
| "tag_name (PyStr k t) = []"

fun tag_attrs :: "node \<Rightarrow> attrs" where
  "tag_attrs (Tag i n a cs) = a"
| "tag_attrs (PyStr k t) = []"

text \<open>The identities of the tags of a forest, in document order.\<close>

fun ids :: "node list \<Rightarrow> nat list" where
  "ids [] = []"
| "ids (PyStr k t # ns) = ids ns"
| "ids (Tag i n a cs # ns) = i # ids cs @ ids ns"

text \<open>The identities of the tags at the top of a forest.\<close>

fun top_ids :: "node list \<Rightarrow> nat list" where
  "top_ids [] = []"
| "top_ids (PyStr k t # ns) = top_ids ns"
| "top_ids (Tag i n a cs # ns) = i # top_ids ns"

text \<open>\<open>find_all\<close>: the tags below, in document order, that a test on name and attributes accepts.\<close>

fun find_all :: "(string \<Rightarrow> attrs \<Rightarrow> bool) \<Rightarrow> node list \<Rightarrow> nat list" where
  "find_all P [] = []"
| "find_all P (PyStr k t # ns) = find_all P ns"
| "find_all P (Tag i n a cs # ns) = (if P n a then [i] else []) @ find_all P cs @ find_all P ns"

text \<open>The tag a reference stands for.\<close>

fun lookup :: "nat \<Rightarrow> node list \<Rightarrow> node option" where
  "lookup i [] = None"
| "lookup i (PyStr k t # ns) = lookup i ns"
| "lookup i (Tag j n a cs # ns) =
     (if i = j then Some (Tag j n a cs)
      else (case lookup i cs of Some x \<Rightarrow> Some x | None \<Rightarrow> lookup i ns))"

text \<open>Put the nodes \<open>f t\<close> where the tag \<open>t\<close> of identity \<open>i\<close> stands.\<close>

fun update :: "nat \<Rightarrow> (node \<Rightarrow> node list) \<Rightarrow> node list \<Rightarrow> node list" where
  "update i f [] = []"
| "update i f (PyStr k t # ns) = PyStr k t # update i f ns"
| "update i f (Tag j n a cs # ns) =
     (if i = j then f (Tag j n a cs) @ update i f ns
      else Tag j n a (update i f cs) # update i f ns)"

fun map_children :: "(node list \<Rightarrow> node list) \<Rightarrow> node \<Rightarrow> node list" where
  "map_children g (Tag i n a cs) = [Tag i n a (g cs)]"
| "map_children g (PyStr k t) = [PyStr k t]"

fun map_attrs :: "(attrs \<Rightarrow> attrs) \<Rightarrow> node \<Rightarrow> node list" where
  "map_attrs g (Tag i n a cs) = [Tag i n (g a) cs]"
| "map_attrs g (PyStr k t) = [PyStr k t]"

definition lookup_s :: "nat \<Rightarrow> soup \<Rightarrow> node option" where
  "lookup_s i s = lookup i (doc s @ detached s)"

definition update_s :: "nat \<Rightarrow> (node \<Rightarrow> node list) \<Rightarrow> soup \<Rightarrow> soup" where
  "update_s i f s = s\<lparr>doc := update i f (doc s), detached := update i f (detached s)\<rparr>"

text \<open>\<open>tag.parent is not None\<close>: the tag exists and is not the top of a detached tree.\<close>

definition has_parent :: "nat \<Rightarrow> soup \<Rightarrow> bool" where
  "has_parent i s = (lookup_s i s \<noteq> None \<and> i \<notin> set (top_ids (detached s)))"

text \<open>Predicates for \<open>find_all\<close>: a list of names, and \<open>find_all('a', href=True)\<close>.\<close>

definition named :: "string list \<Rightarrow> string \<Rightarrow> attrs \<Rightarrow> bool" where
  "named names n a = (n \<in> set names)"

definition a_href :: "string \<Rightarrow> attrs \<Rightarrow> bool" where
  "a_href n a = (n = ''a'' \<and> map_of a ''href'' \<noteq> None)"

text \<open>\<open>tag.find_all(...)\<close> and \<open>tag.find(...)\<close>: below the tag; \<open>soup.find(...)\<close>: in the document.\<close>

definition tag_find_all :: "nat \<Rightarrow> (string \<Rightarrow> attrs \<Rightarrow> bool) \<Rightarrow> soup \<Rightarrow> nat list" where
  "tag_find_all i P s = (case lookup_s i s of None \<Rightarrow> [] | Some t \<Rightarrow> find_all P (children t))"

definition first :: "'a list \<Rightarrow> 'a option" where
  "first xs = (case xs of [] \<Rightarrow> None | x # _ \<Rightarrow> Some x)"

definition tag_find :: "nat \<Rightarrow> (string \<Rightarrow> attrs \<Rightarrow> bool) \<Rightarrow> soup \<Rightarrow> nat option" where
  "tag_find i P s = first (tag_find_all i P s)"

definition soup_find :: "(string \<Rightarrow> attrs \<Rightarrow> bool) \<Rightarrow> soup \<Rightarrow> nat option" where
  "soup_find P s = first (find_all P (doc s))"

text \<open>\<open>tag.get(key)\<close>, the truth value Python gives it, and \<open>tag[key] = value\<close>.\<close>

definition get_attr :: "nat \<Rightarrow> string \<Rightarrow> soup \<Rightarrow> attr_value option" where
  "get_attr i k s = (case lookup_s i s of None \<Rightarrow> None | Some t \<Rightarrow> map_of (tag_attrs t) k)"

fun truthy :: "attr_value option \<Rightarrow> bool" where
  "truthy None = False"
| "truthy (Some (Str v)) = (v \<noteq> [])"
| "truthy (Some (Lst vs)) = (vs \<noteq> [])"
| "truthy (Some PyTrue) = True"

definition set_attr :: "nat \<Rightarrow> string \<Rightarrow> attr_value \<Rightarrow> soup \<Rightarrow> soup" where
  "set_attr i k v s = update_s i (map_attrs (AList.update k v)) s"

text \<open>\<open>soup.new_tag(name, **attrs)\<close>: a new tag, in no tree.\<close>

definition new_tag :: "string \<Rightarrow> attrs \<Rightarrow> soup \<Rightarrow> nat \<times> soup" where
  "new_tag name al s =
     (next_id s,
      s\<lparr>detached := detached s @ [Tag (next_id s) name al []], next_id := Suc (next_id s)\<rparr>)"

text \<open>\<open>tag.extract()\<close>: the tag leaves its parent and becomes the top of a detached tree.\<close>

definition tag_extract :: "nat \<Rightarrow> soup \<Rightarrow> soup" where
  "tag_extract i s =
     (case lookup_s i s of
        None \<Rightarrow> s
      | Some x \<Rightarrow>
          if has_parent i s
          then s\<lparr>doc := update i (\<lambda>_. []) (doc s),
                 detached := update i (\<lambda>_. []) (detached s) @ [x]\<rparr>
          else s)"

text \<open>
  \<open>p.insert(pos, tag)\<close> and \<open>p.append(tag)\<close> for a tag that is not a child of \<open>p\<close> already and
  does not hold \<open>p\<close>: the tag is extracted, then placed among the children of \<open>p\<close>.
\<close>

definition tag_insert :: "nat \<Rightarrow> nat \<Rightarrow> nat \<Rightarrow> soup \<Rightarrow> soup" where
  "tag_insert p pos i s =
     (let s1 = tag_extract i s in
      case lookup i (detached s1) of
        None \<Rightarrow> s1
      | Some x \<Rightarrow>
          update_s p (map_children (\<lambda>cs. take pos cs @ [x] @ drop pos cs))
            (s1\<lparr>detached := update i (\<lambda>_. []) (detached s1)\<rparr>))"

definition tag_append :: "nat \<Rightarrow> nat \<Rightarrow> soup \<Rightarrow> soup" where
  "tag_append p i s =
     (let s1 = tag_extract i s in
      case lookup i (detached s1) of
        None \<Rightarrow> s1
      | Some x \<Rightarrow>
          update_s p (map_children (\<lambda>cs. cs @ [x]))
            (s1\<lparr>detached := update i (\<lambda>_. []) (detached s1)\<rparr>))"

text \<open>
  \<open>p.extend(c.contents)\<close> for a tag \<open>p\<close> outside \<open>c\<close>: every child of \<open>c\<close>, string or tag, moves to
  the end of \<open>p\<close>, in order.
\<close>

definition extend_contents :: "nat \<Rightarrow> nat \<Rightarrow> soup \<Rightarrow> soup" where
  "extend_contents p c s =
     (case lookup_s c s of
        None \<Rightarrow> s
      | Some t \<Rightarrow>
          update_s p (map_children (\<lambda>cs. cs @ children t))
            (update_s c (map_children (\<lambda>_. [])) s))"

text \<open>\<open>tag.string = text\<close>: the text becomes the only child.\<close>

definition set_string :: "nat \<Rightarrow> string \<Rightarrow> soup \<Rightarrow> soup" where
  "set_string i t s = update_s i (map_children (\<lambda>_. [PyStr NavigableString t])) s"

text \<open>\<open>tag.unwrap()\<close>: the children take the place of the tag; it needs a parent.\<close>

definition unwrap :: "nat \<Rightarrow> soup \<Rightarrow> error + soup" where
  "unwrap i s =
     (case lookup_s i s of
        None \<Rightarrow> Inl ValueError
      | Some x \<Rightarrow>
          if has_parent i s
          then Inr (s\<lparr>doc := update i children (doc s),
                      detached := update i children (detached s) @ map_children (\<lambda>_. []) x\<rparr>)
          else Inl ValueError)"

text \<open>\<open>tag.replace_with(other)\<close> for a detached \<open>other\<close>; the tag needs a parent.\<close>

definition replace_with :: "nat \<Rightarrow> nat \<Rightarrow> soup \<Rightarrow> error + soup" where
  "replace_with i w s =
     (case (lookup_s i s, lookup w (detached s)) of
        (Some x, Some y) \<Rightarrow>
          if has_parent i s
          then (let s1 = s\<lparr>detached := update w (\<lambda>_. []) (detached s)\<rparr> in
                Inr (s1\<lparr>doc := update i (\<lambda>_. [y]) (doc s1),
                        detached := update i (\<lambda>_. [y]) (detached s1) @ [x]\<rparr>))
          else Inl ValueError
      | _ \<Rightarrow> Inl ValueError)"

text \<open>\<open>tag.decompose()\<close>: the tag and all below it are destroyed.\<close>

definition decompose :: "nat \<Rightarrow> soup \<Rightarrow> soup" where
  "decompose i s = update_s i (\<lambda>_. []) s"

text \<open>\<open>soup.clear()\<close> and \<open>soup.append(tag)\<close> on the \<open>BeautifulSoup\<close> object itself.\<close>

definition soup_clear :: "soup \<Rightarrow> soup" where
  "soup_clear s = s\<lparr>doc := [], detached := detached s @ doc s\<rparr>"

definition soup_append :: "nat \<Rightarrow> soup \<Rightarrow> soup" where
  "soup_append i s =
     (let s1 = tag_extract i s in
      case lookup i (detached s1) of
        None \<Rightarrow> s1
      | Some x \<Rightarrow> s1\<lparr>doc := doc s1 @ [x], detached := update i (\<lambda>_. []) (detached s1)\<rparr>)"

text \<open>A \<open>for\<close> loop whose body may raise: the first exception ends it.\<close>

fun for_each :: "('a \<Rightarrow> 's \<Rightarrow> error + 's) \<Rightarrow> 'a list \<Rightarrow> 's \<Rightarrow> error + 's" where
  "for_each body [] s = Inr s"
| "for_each body (x # xs) s =
     (case body x s of Inl e \<Rightarrow> Inl e | Inr s' \<Rightarrow> for_each body xs s')"

text \<open>The names both programs search headings by.\<close>

definition heading_names :: "string list" where
  "heading_names = [''h1'', ''h2'', ''h3'', ''h4'', ''h5'', ''h6'']"

section \<open>The converter (convert\_html.py)\<close>

text \<open>Sequencing of steps that may raise.\<close>

definition and_then :: "error + 'a \<Rightarrow> ('a \<Rightarrow> error + 'b) \<Rightarrow> error + 'b" where
  "and_then m f = (case m of Inl e \<Rightarrow> Inl e | Inr x \<Rightarrow> f x)"

subsection \<open>\<open>_convert_to_html5\<close>\<close>

definition allow_list :: "string list" where
  "allow_list = [''table'', ''p'', ''div'', ''ul'', ''ol'', ''li'',
                 ''h1'', ''h2'', ''h3'', ''h4'', ''h5'', ''h6'']"

text \<open>
  The body of the loop over \<open>existing_content\<close>: an element with a parent is extracted and
  appended to \<open>html_tag.find('body')\<close>.
\<close>

definition move_to_body :: "nat \<Rightarrow> nat \<Rightarrow> soup \<Rightarrow> error + soup" where
  "move_to_body html_tag element s =
     (if has_parent element s
      then (let s1 = tag_extract element s in
            case tag_find html_tag (named [''body'']) s1 of
              None \<Rightarrow> Inl AttributeError
            | Some body \<Rightarrow> Inr (tag_append body element s1))
      else Inr s)"

definition convert_to_html5 :: "soup \<Rightarrow> error + soup" where
  "convert_to_html5 s0 =
     and_then (case soup_find (named [''html'']) s0 of
                 Some html \<Rightarrow> unwrap html s0
               | None \<Rightarrow> Inr s0)
       (\<lambda>s1.
          let s2 = (if doc s1 \<noteq> [] then s1\<lparr>doc := PyStr Comment ''DOCTYPE html'' # doc s1\<rparr> else s1);
              (html_tag, s3) = new_tag ''html'' [] s2;
              s4 = set_attr html_tag ''lang'' (Str ''en'') s3;
              (head, s5) = new_tag ''head'' [] s4;
              s6 = tag_append html_tag head s5;
              (body, s7) = new_tag ''body'' [] s6;
              s8 = tag_append html_tag body s7;
              existing_content = find_all (named allow_list) (doc s8)
          in and_then (for_each (move_to_body html_tag) existing_content s8)
               (\<lambda>s9. Inr (soup_append html_tag (soup_clear s9))))"

subsection \<open>\<open>_add_modern_structure\<close>\<close>

text \<open>
  A tag made by \<open>new_tag\<close> whose attributes the code then sets one by one is written with
  those attributes, in the order of the assignments. \<open>new_tag\<close> splits a \<open>class\<close> given as a
  keyword into the list of its words.
\<close>

definition add_modern_structure :: "soup \<Rightarrow> error + soup" where
  "add_modern_structure s =
     (case soup_find (named [''head'']) s of
        None \<Rightarrow> Inr s
      | Some head \<Rightarrow>
          (let (meta_charset, s1) = new_tag ''meta'' [(''charset'', Str ''utf-8'')] s;
               (meta_viewport, s2) =
                  new_tag ''meta'' [(''name'', Str ''viewport''),
                    (''content'', Str ''width=device-width, initial-scale=1.0'')] s1;
               (meta_description, s3) =
                  new_tag ''meta'' [(''name'', Str ''description''),
                    (''content'', Str ''Bible study resources and commentary'')] s2;
               s4 = tag_insert head 0 meta_charset s3;
               s5 = tag_insert head 1 meta_viewport s4;
               s6 = tag_insert head 2 meta_description s5;
               (css_link, s7) =
                  new_tag ''link'' [(''rel'', Str ''stylesheet''),
                    (''href'', Str ''css/modern-styles.css'')] s6;
               (js_script, s8) =
                  new_tag ''script'' [(''src'', Str ''js/modern-features.js''), (''defer'', PyTrue)] s7;
               (search_script, s9) =
                  new_tag ''script'' [(''src'', Str ''js/search.js''), (''defer'', PyTrue)] s8;
               (search_index_script, s10) =
                  new_tag ''script'' [(''src'', Str ''js/search-index.js''), (''defer'', PyTrue)] s9;
               s11 = tag_append head css_link s10;
               s12 = tag_append head js_script s11;
               s13 = tag_append head search_script s12;
               s14 = tag_append head search_index_script s13;
               (skip_link, s15) =
                  new_tag ''a'' [(''href'', Str ''#main-content''), (''class'', Lst [''skip-link''])] s14;
               s16 = set_string skip_link ''Skip to main content'' s15
           in case soup_find (named [''body'']) s16 of
                None \<Rightarrow> Inl AttributeError
              | Some body \<Rightarrow> Inr (tag_insert body 0 skip_link s16)))"

subsection \<open>\<open>_convert_tables\<close>\<close>

text \<open>The test for a layout table, on the attributes of the table.\<close>

definition is_layout_table :: "attrs \<Rightarrow> bool" where
  "is_layout_table a =
     (map_of a ''width'' = Some (Str ''100%'')
      \<or> truthy (map_of a ''cellpadding'')
      \<or> truthy (map_of a ''cellspacing'')
      \<or> map_of a ''bgcolor'' \<noteq> None)"

text \<open>The loop over the two cells of a row (\<open>enumerate(cells)\<close>), and the loop over many cells.\<close>

fun columns_loop :: "nat \<Rightarrow> nat \<Rightarrow> nat list \<Rightarrow> soup \<Rightarrow> soup" where
  "columns_loop section i [] s = s"
| "columns_loop section i (cell # cells) s =
     (let (col, s1) = new_tag ''div'' [(''class'', Lst [''column'', ''column-'' @ str_nat (i + 1)])] s;
          s2 = extend_contents col cell s1;
          s3 = tag_append section col s2
      in columns_loop section (i + 1) cells s3)"

fun grid_loop :: "nat \<Rightarrow> nat list \<Rightarrow> soup \<Rightarrow> soup" where
  "grid_loop section [] s = s"
| "grid_loop section (cell # cells) s =
     (let (item, s1) = new_tag ''div'' [(''class'', Lst [''grid-item''])] s;
          s2 = extend_contents item cell s1;
          s3 = tag_append section item s2
      in grid_loop section cells s3)"

definition convert_row :: "nat \<Rightarrow> nat \<Rightarrow> soup \<Rightarrow> soup" where
  "convert_row wrapper row s =
     (let cells = tag_find_all row (named [''td'', ''th'']) s in
      if length cells = 1 then
        (let (section, s1) = new_tag ''section'' [(''class'', Lst [''content-section''])] s;
             s2 = extend_contents section (hd cells) s1
         in tag_append wrapper section s2)
      else if length cells = 2 then
        (let (section, s1) = new_tag ''div'' [(''class'', Lst [''two-column-layout''])] s;
             s2 = columns_loop section 0 cells s1
         in tag_append wrapper section s2)
      else
        (let (section, s1) = new_tag ''div'' [(''class'', Lst [''grid-layout''])] s;
             s2 = grid_loop section cells s1
         in tag_append wrapper section s2))"

definition convert_table :: "nat \<Rightarrow> soup \<Rightarrow> error + soup" where
  "convert_table table s =
     (if is_layout_table (case lookup_s table s of Some t \<Rightarrow> tag_attrs t | None \<Rightarrow> [])
      then (let (wrapper, s1) = new_tag ''div'' [(''class'', Lst [''modern-layout''])] s;
                rows = tag_find_all table (named [''tr'']) s1;
                s2 = fold (convert_row wrapper) rows s1
            in replace_with table wrapper s2)
      else Inr s)"

definition convert_tables :: "soup \<Rightarrow> error + soup" where
  "convert_tables s = for_each convert_table (find_all (named [''table'']) (doc s)) s"

subsection \<open>\<open>_add_accessibility\<close>\<close>

definition add_heading_id :: "nat \<times> nat \<Rightarrow> soup \<Rightarrow> soup" where
  "add_heading_id ih s =
     (case ih of (i, heading) \<Rightarrow>
        if \<not> truthy (get_attr heading ''id'' s)
        then set_attr heading ''id'' (Str (''heading-'' @ str_nat i)) s
        else s)"

definition add_default :: "string \<Rightarrow> string \<Rightarrow> nat \<Rightarrow> soup \<Rightarrow> soup" where
  "add_default key v tag s =
     (if \<not> truthy (get_attr tag key s) then set_attr tag key (Str v) s else s)"

definition add_accessibility :: "soup \<Rightarrow> soup" where
  "add_accessibility s =
     (let s1 = (case soup_find (named [''body'']) s of
                  Some main_content \<Rightarrow>
                    set_attr main_content ''id'' (Str ''main-content'')
                      (set_attr main_content ''role'' (Str ''main'') s)
                | None \<Rightarrow> s);
          headings = find_all (named heading_names) (doc s1);
          s2 = fold add_heading_id (enumerate 0 headings) s1;
          images = find_all (named [''img'']) (doc s2);
          s3 = fold (add_default ''alt'' ''Image'') images s2;
          links = find_all (named [''a'']) (doc s3)
      in fold (add_default ''tabindex'' ''0'') links s3)"

subsection \<open>\<open>_add_responsive_classes\<close>\<close>

text \<open>\<open>tag['class'] = tag.get('class', []) + [c]\<close>: only a list can take the new class.\<close>

definition add_class :: "string \<Rightarrow> nat \<Rightarrow> soup \<Rightarrow> error + soup" where
  "add_class c tag s =
     (case get_attr tag ''class'' s of
        None \<Rightarrow> Inr (set_attr tag ''class'' (Lst [c]) s)
      | Some (Lst cs) \<Rightarrow> Inr (set_attr tag ''class'' (Lst (cs @ [c])) s)
      | Some _ \<Rightarrow> Inl TypeError)"

definition container_table :: "nat \<Rightarrow> soup \<Rightarrow> error + soup" where
  "container_table table s =
     (if get_attr table ''width'' s = Some (Str ''100%'') then add_class ''container'' table s
      else Inr s)"

definition responsive_paragraph :: "nat \<Rightarrow> soup \<Rightarrow> soup" where
  "responsive_paragraph p s =
     (if \<not> truthy (get_attr p ''class'' s) then set_attr p ''class'' (Lst [''responsive-text'']) s
      else s)"

definition external_link :: "nat \<Rightarrow> soup \<Rightarrow> error + soup" where
  "external_link link s =
     (case get_attr link ''href'' s of
        None \<Rightarrow> Inr s
      | Some (Str href) \<Rightarrow>
          if startswith href ''http'' then add_class ''external-link'' link s else Inr s
      | Some _ \<Rightarrow> Inl AttributeError)"

definition add_responsive_classes :: "soup \<Rightarrow> error + soup" where
  "add_responsive_classes s =
     and_then (for_each container_table (find_all (named [''table'']) (doc s)) s)
       (\<lambda>s1. let s2 = fold responsive_paragraph (find_all (named [''p'']) (doc s1)) s1
             in for_each external_link (find_all (named [''a'']) (doc s2)) s2)"

subsection \<open>\<open>_update_links\<close>\<close>

definition site_origin :: string where
  "site_origin = ''http://www.bibletexts.com/''"

definition update_link :: "nat \<Rightarrow> soup \<Rightarrow> error + soup" where
  "update_link link s =
     (case get_attr link ''href'' s of
        Some (Str href) \<Rightarrow>
          if startswith href site_origin
          then (let relative_path = py_replace href site_origin '''' in
                Inr (set_attr link ''href'' (Str relative_path) s))
          else if startswith href ''http://''
          then Inr (set_attr link ''rel'' (Str ''noopener noreferrer'')
                     (set_attr link ''target'' (Str ''_blank'') s))
          else Inr s
      | _ \<Rightarrow> Inl AttributeError)"

definition update_links :: "soup \<Rightarrow> error + soup" where
  "update_links s = for_each update_link (find_all a_href (doc s)) s"

subsection \<open>\<open>convert_file\<close> and \<open>convert_all\<close>\<close>

text \<open>The passes of \<open>convert_file\<close>, in its order.\<close>

definition transform :: "soup \<Rightarrow> error + soup" where
  "transform soup0 =
     and_then (convert_to_html5 soup0) (\<lambda>s1.
     and_then (add_modern_structure s1) (\<lambda>s2.
     and_then (convert_tables s2) (\<lambda>s3.
     and_then (add_responsive_classes (add_accessibility s3)) (\<lambda>s4.
     update_links s4))))"

text \<open>
  What a run of the converter meets outside the program, over a file system of type \<open>'w\<close>:
  whether the source is a single file, the two directories, reading a file, parsing its text,
  and writing the page (making the directories, opening the file, printing the soup). The
  calls may raise; a write that raises may still have changed the file system.
\<close>

record 'w convert_env =
  source_is_file :: bool
  source_dir :: "string list"
  output_dir :: "string list"
  read_source :: "'w \<Rightarrow> string list \<Rightarrow> error + string"
  parse_source :: "string \<Rightarrow> error + soup"
  write_page :: "'w \<Rightarrow> string list \<Rightarrow> node list \<Rightarrow> error option \<times> 'w"

text \<open>\<open>Path.relative_to\<close>.\<close>

definition relative_to :: "string list \<Rightarrow> string list \<Rightarrow> error + string list" where
  "relative_to p base =
     (if take (length base) p = base then Inr (drop (length base) p) else Inl ValueError)"

definition output_path :: "'w convert_env \<Rightarrow> string list \<Rightarrow> error + string list" where
  "output_path env file_path =
     (if source_is_file env then Inr (output_dir env @ [path_name file_path])
      else and_then (relative_to file_path (source_dir env)) (\<lambda>rel. Inr (output_dir env @ rel)))"

text \<open>The body of the \<open>try\<close> of \<open>convert_file\<close>: the exception it ends with, if any.\<close>

definition convert_steps :: "'w convert_env \<Rightarrow> 'w \<Rightarrow> string list \<Rightarrow> error option \<times> 'w" where
  "convert_steps env w file_path =
     (case and_then (read_source env w file_path) (\<lambda>content.
           and_then (parse_source env content) (\<lambda>soup0.
           and_then (transform soup0) (\<lambda>soup1.
           and_then (output_path env file_path) (\<lambda>out. Inr (out, soup1))))) of
        Inl e \<Rightarrow> (Some e, w)
      | Inr (out, soup1) \<Rightarrow> write_page env w out (doc soup1))"







section \<open>The search indexer (build\_search\_index.py)\<close>

text \<open>
  \<open>get_text()\<close>: the strings below, in document order, of the classes \<open>NavigableString\<close> and
  \<open>CData\<close> (comments, doctypes and the strings of script, style and template tags are of
  other classes and are left out).
\<close>

fun get_text :: "node list \<Rightarrow> string" where
  "get_text [] = []"
| "get_text (PyStr k t # ns) = (if k = NavigableString \<or> k = CData then t else []) @ get_text ns"
| "get_text (Tag i n a cs # ns) = get_text cs @ get_text ns"

definition tag_text :: "nat \<Rightarrow> soup \<Rightarrow> string" where
  "tag_text i s = (case lookup_s i s of None \<Rightarrow> [] | Some t \<Rightarrow> get_text (children t))"

definition extract_title :: "soup \<Rightarrow> string" where
  "extract_title s =
     (case soup_find (named [''title'']) s of
        Some title_tag \<Rightarrow> strip (tag_text title_tag s)
      | None \<Rightarrow>
          (case soup_find (named [''h1'']) s of
             Some h1 \<Rightarrow> strip (tag_text h1 s)
           | None \<Rightarrow> ''Untitled''))"

text \<open>\<open>_get_relative_url\<close>, for a file given by its path below the source directory.\<close>

definition get_relative_url :: "string list \<Rightarrow> string" where
  "get_relative_url rel_path = py_replace (path_str rel_path) [CHR 0x5C] ''/''"

text \<open>\<open>_extract_content\<close> changes the soup it reads: the script and style tags are destroyed.\<close>

definition extract_content :: "soup \<Rightarrow> string \<times> soup" where
  "extract_content s =
     (let s1 = fold decompose (find_all (named [''script'', ''style'']) (doc s)) s
      in (strip (collapse_ws (get_text (doc s1))), s1))"

record heading =
  level :: nat
  heading_text :: string
  hid :: attr_value

text \<open>\<open>int(heading.name[1])\<close> for the names \<open>h1\<close> to \<open>h6\<close>.\<close>

definition heading_level :: "string \<Rightarrow> nat" where
  "heading_level name = of_char (name ! 1) - 48"

definition extract_headings :: "soup \<Rightarrow> heading list" where
  "extract_headings s =
     map (\<lambda>h. \<lparr>level = heading_level (case lookup_s h s of Some t \<Rightarrow> tag_name t | None \<Rightarrow> ''h0''),
               heading_text = strip (tag_text h s),
               hid = (case get_attr h ''id'' s of Some v \<Rightarrow> v | None \<Rightarrow> Str [])\<rparr>)
       (find_all (named heading_names) (doc s))"

record link =
  url :: string
  link_text :: string

text \<open>
  The loop of \<open>_extract_links\<close>. \<open>href.startswith\<close> needs a string: on any other value the
  call raises.
\<close>

fun links_loop :: "soup \<Rightarrow> nat list \<Rightarrow> link list \<Rightarrow> error + link list" where
  "links_loop s [] links = Inr links"
| "links_loop s (l # ls) links =
     (case get_attr l ''href'' s of
        Some (Str href) \<Rightarrow>
          if \<not> startswith href ''http'' \<and> \<not> startswith href ''#''
          then links_loop s ls (links @ [\<lparr>url = href, link_text = strip (tag_text l s)\<rparr>])
          else links_loop s ls links
      | _ \<Rightarrow> Inl AttributeError)"

definition extract_links :: "soup \<Rightarrow> error + link list" where
  "extract_links s = links_loop s (find_all a_href (doc s)) []"

text \<open>How \<open>find(..., attrs={'name': 'keywords'})\<close> compares an attribute value with a string.\<close>

fun attr_matches :: "attr_value option \<Rightarrow> string \<Rightarrow> bool" where
  "attr_matches None m = False"
| "attr_matches (Some (Str v)) m = (v = m)"
| "attr_matches (Some (Lst vs)) m = (m \<in> set vs \<or> join '' '' vs = m)"
| "attr_matches (Some PyTrue) m = False"

definition meta_keywords :: "string \<Rightarrow> attrs \<Rightarrow> bool" where
  "meta_keywords n a = (n = ''meta'' \<and> attr_matches (map_of a ''name'') ''keywords'')"

definition bible_terms :: "string list" where
  "bible_terms =
     [''bible'', ''scripture'', ''gospel'', ''testament'', ''christian'', ''jesus'', ''christ'',
      ''god'', ''lord'', ''prayer'', ''faith'', ''salvation'', ''grace'', ''love'', ''peace'',
      ''forgiveness'', ''repentance'', ''baptism'', ''communion'', ''church'', ''worship'']"

text \<open>The tokens of the keywords meta tag: \<open>meta_keywords.get('content', '').split(',')\<close>.\<close>

definition meta_tokens :: "soup \<Rightarrow> error + string list" where
  "meta_tokens s =
     (case soup_find meta_keywords s of
        None \<Rightarrow> Inr []
      | Some m \<Rightarrow>
          (case get_attr m ''content'' s of
             None \<Rightarrow> Inr (split_on CHR '','' [])
           | Some (Str v) \<Rightarrow> Inr (split_on CHR '','' v)
           | Some _ \<Rightarrow> Inl AttributeError))"

text \<open>
  \<open>_extract_keywords\<close>. The order of \<open>list(set(keywords))\<close> is the interpreter's (it changes
  with the hash seed of the run): \<open>set_order\<close> stands for it.
\<close>

definition extract_keywords :: "(string list \<Rightarrow> string list) \<Rightarrow> soup \<Rightarrow> error + string list" where
  "extract_keywords set_order s =
     (case meta_tokens s of
        Inl e \<Rightarrow> Inl e
      | Inr keywords \<Rightarrow>
          (let content = lower (get_text (doc s))
           in Inr (set_order (keywords @ filter (\<lambda>term. contains content term) bible_terms))))"

text \<open>What \<open>list(set(xs))\<close> may be: the elements of \<open>xs\<close>, each once, in some order.\<close>

definition set_listing :: "(string list \<Rightarrow> string list) \<Rightarrow> bool" where
  "set_listing set_order = (\<forall>xs. set (set_order xs) = set xs \<and> distinct (set_order xs))"

record 't page_data =
  title :: string
  page_url :: string
  content :: string
  headings :: "heading list"
  links :: "link list"
  page_keywords :: "string list"
  last_modified :: 't

text \<open>
  The record of \<open>_index_file\<close> for a parsed file. The fields are computed in the order of the
  dictionary display, so headings, links and keywords see the soup that \<open>_extract_content\<close>
  left; the modification time is read last.
\<close>

definition page_record ::
  "(string list \<Rightarrow> string list) \<Rightarrow> string list \<Rightarrow> error + 't \<Rightarrow> soup \<Rightarrow> error + 't page_data" where
  "page_record set_order rel_path stat_mtime s =
     (let t = extract_title s;
          u = get_relative_url rel_path;
          (c, s1) = extract_content s;
          hs = extract_headings s1
      in case extract_links s1 of
           Inl e \<Rightarrow> Inl e
         | Inr ls \<Rightarrow>
             (case extract_keywords set_order s1 of
                Inl e \<Rightarrow> Inl e
              | Inr ks \<Rightarrow>
                  (case stat_mtime of
                     Inl e \<Rightarrow> Inl e
                   | Inr m \<Rightarrow>
                       Inr \<lparr>title = t, page_url = u, content = c, headings = hs, links = ls,
                            page_keywords = ks, last_modified = m\<rparr>)))"

text \<open>
  What one run of the indexer meets outside the program: reading a file, parsing its text
  (\<open>BeautifulSoup(content, 'html.parser')\<close>), reading its modification time, the order of
  \<open>list(set(...))\<close>, and writing the index file. Each of the calls may raise.
\<close>

record 't index_env =
  read_text :: "string list \<Rightarrow> error + string"
  parse_html :: "string \<Rightarrow> error + soup"
  stat_mtime :: "string list \<Rightarrow> error + 't"
  set_order :: "string list \<Rightarrow> string list"
  save_index :: "'t page_data list \<Rightarrow> error option"

text \<open>
  \<open>_index_file\<close>: the file is read and parsed and its record built (\<open>page_of_file\<close>); the record
  is appended to \<open>search_index\<close>, or an exception leaves the index as it was.
\<close>

definition page_of_file :: "'t index_env \<Rightarrow> string list \<Rightarrow> error + 't page_data" where
  "page_of_file env file_path =
     (case read_text env file_path of
        Inl e \<Rightarrow> Inl e
      | Inr file_text \<Rightarrow>
          (case parse_html env file_text of
             Inl e \<Rightarrow> Inl e
           | Inr s \<Rightarrow> page_record (set_order env) file_path (stat_mtime env file_path) s))"

definition index_file ::
  "'t index_env \<Rightarrow> string list \<Rightarrow> 't page_data list \<Rightarrow> error + 't page_data list" where
  "index_file env file_path search_index =
     (case page_of_file env file_path of
        Inl e \<Rightarrow> Inl e
      | Inr page \<Rightarrow> Inr (search_index @ [page]))"

text \<open>The loop of \<open>build_index\<close>, with its \<open>try\<close> around each file.\<close>

fun index_files ::
  "'t index_env \<Rightarrow> string list list \<Rightarrow> 't page_data list \<Rightarrow> 't page_data list" where
  "index_files env [] search_index = search_index"
| "index_files env (html_file # rest) search_index =
     (case index_file env html_file search_index of
        Inl e \<Rightarrow> index_files env rest search_index
      | Inr search_index' \<Rightarrow> index_files env rest search_index')"


section \<open>Site scaffolding (setup.py)\<close>

text \<open>
  A file found by \<open>root_dir.rglob("*.html")\<close>: its path relative to the root, as the list of
  its components, and the text Python prints for its \<open>st_mtime\<close> (a float; its formatting
  is the interpreter's and is taken as given).
\<close>

record html_file =
  parts :: "string list"
  mtime_text :: string

definition sitemap_header :: string where
  \<open>sitemap_header = ''<?xml version="1.0" encoding="UTF-8"?>\<newline><urlset xmlns="http://www.sitemaps.org/schemas/sitemap/0.9">''\<close>

definition sitemap_entry :: "html_file \<Rightarrow> string" where
  "sitemap_entry f =
     ''\<newline>    <url>\<newline>        <loc>'' @ (''https://bibletexts.com/'' @ path_str (parts f)) @ ''</loc>\<newline>        <lastmod>''
     @ mtime_text f @ ''</lastmod>\<newline>        <changefreq>monthly</changefreq>\<newline>        <priority>0.8</priority>\<newline>    </url>''"

text \<open>The loop of \<open>_create_sitemap\<close>: \<open>sitemap_content\<close> grows by one entry per file that is kept.\<close>

fun sitemap_loop :: "string \<Rightarrow> html_file list \<Rightarrow> string" where
  "sitemap_loop sitemap_content [] = sitemap_content"
| "sitemap_loop sitemap_content (f # fs) =
     (if path_name (parts f) \<noteq> ''index.html''
      then sitemap_loop (sitemap_content @ sitemap_entry f) fs
      else sitemap_loop sitemap_content fs)"

definition create_sitemap :: "html_file list \<Rightarrow> string" where
  "create_sitemap files = sitemap_loop sitemap_header files @ ''\<newline></urlset>''"

text \<open>The files that get a \<open><url>\<close> entry.\<close>

definition sitemap_listed :: "html_file list \<Rightarrow> html_file list" where
  "sitemap_listed files = filter (\<lambda>f. path_name (parts f) \<noteq> ''index.html'') files"

section \<open>Notions used to state the properties\<close>

text \<open>A forest without the subtrees of the tags a test accepts.\<close>

fun prune :: "(string \<Rightarrow> attrs \<Rightarrow> bool) \<Rightarrow> node list \<Rightarrow> node list" where
  "prune P [] = []"
| "prune P (PyStr k t # ns) = PyStr k t # prune P ns"
| "prune P (Tag i n a cs # ns) =
     (if P n a then prune P ns else Tag i n a (prune P cs) # prune P ns)"

text \<open>A forest without the subtrees of the tags whose identity is in a set.\<close>

fun without_ids :: "nat set \<Rightarrow> node list \<Rightarrow> node list" where
  "without_ids S [] = []"
| "without_ids S (PyStr k t # ns) = PyStr k t # without_ids S ns"
| "without_ids S (Tag i n a cs # ns) =
     (if i \<in> S then without_ids S ns else Tag i n a (without_ids S cs) # without_ids S ns)"

text \<open>The document outside its script and style subtrees.\<close>

definition visible :: "node list \<Rightarrow> node list" where
  "visible d = prune (named [''script'', ''style'']) d"

text \<open>An anchor as the indexer reads it: its href, whether it is kept, and the link recorded.\<close>

definition href_of :: "soup \<Rightarrow> nat \<Rightarrow> string" where
  "href_of s l = (case get_attr l ''href'' s of Some (Str h) \<Rightarrow> h | _ \<Rightarrow> [])"

definition kept_link :: "soup \<Rightarrow> nat \<Rightarrow> bool" where
  "kept_link s l = (\<not> startswith (href_of s l) ''http'' \<and> \<not> startswith (href_of s l) ''#'')"

definition link_of :: "soup \<Rightarrow> nat \<Rightarrow> link" where
  "link_of s l = \<lparr>url = href_of s l, link_text = strip (tag_text l s)\<rparr>"

text \<open>The specification's words for an href: an absolute http(s) URL, a pure fragment.\<close>

definition absolute_http_url :: "string \<Rightarrow> bool" where
  "absolute_http_url h = (startswith h ''http://'' \<or> startswith h ''https://'')"

definition pure_fragment :: "string \<Rightarrow> bool" where
  "pure_fragment h = startswith h ''#''"

text \<open>The headings of a document, in document order.\<close>

definition headings_of :: "soup \<Rightarrow> nat list" where
  "headings_of s = find_all (named heading_names) (doc s)"



text \<open>
  The skeleton that \<open>_convert_to_html5\<close> builds: the tags html (with \<open>lang\<close>), head and body,
  made in this order from the identity \<open>n\<close> on; \<open>K\<close> are the children of the body.
\<close>

definition skeleton :: "nat \<Rightarrow> node list \<Rightarrow> node" where
  "skeleton n K = Tag n ''html'' [(''lang'', Str ''en'')]
                    [Tag (Suc n) ''head'' [] [], Tag (Suc (Suc n)) ''body'' [] K]"

section \<open>Example inputs\<close>

definition psalm_page :: soup where
  "psalm_page = \<lparr>doc =
      [Tag 1 ''html'' []
        [Tag 2 ''head'' []
          [Tag 3 ''title'' [] [PyStr NavigableString ''Psalm 23''],
           Tag 4 ''script'' [] [PyStr Script ''var gospel = 1;'']],
         Tag 5 ''body'' []
          [Tag 6 ''p'' [] [PyStr NavigableString ''The Lord is my shepherd; I shall not want.''],
           Tag 7 ''a'' [(''href'', Str ''httpd.html'')] [PyStr NavigableString '' Prayer notes ''],
           Tag 8 ''a'' [(''href'', Str ''psalm24.html'')] [PyStr NavigableString '' Next '']]]],
    detached = [], next_id = 9\<rparr>"

definition psalm_record :: "nat page_data" where
  "psalm_record =
     \<lparr>title = ''Psalm 23'', page_url = ''psalm23.html'',
      content = ''Psalm 23The Lord is my shepherd; I shall not want. Prayer notes Next'',
      headings = [],
      links = [\<lparr>url = ''psalm24.html'', link_text = ''Next''\<rparr>],
      page_keywords = [''lord'', ''prayer''], last_modified = 0\<rparr>"

text \<open>Two runs over the same file: the set order and the modification time differ.\<close>

definition run_one :: "nat index_env" where
  "run_one = \<lparr>read_text = (\<lambda>f. Inr ''<html>''), parse_html = (\<lambda>t. Inr psalm_page),
     stat_mtime = (\<lambda>f. Inr 0), set_order = remdups, save_index = (\<lambda>x. None)\<rparr>"

definition run_two :: "nat index_env" where
  "run_two = \<lparr>read_text = (\<lambda>f. Inr ''<html>''), parse_html = (\<lambda>t. Inr psalm_page),
     stat_mtime = (\<lambda>f. Inr 7), set_order = (\<lambda>xs. rev (remdups xs)), save_index = (\<lambda>x. None)\<rparr>"

definition psalm_record_two :: "nat page_data" where
  "psalm_record_two = psalm_record\<lparr>page_keywords := [''prayer'', ''lord''], last_modified := 7\<rparr>"

definition headings_page :: soup where
  "headings_page = \<lparr>doc =
      [Tag 1 ''body'' []
        [Tag 2 ''h1'' [(''id'', Str ''intro'')] [PyStr NavigableString ''Introduction''],
         Tag 3 ''p'' [] [Tag 4 ''h2'' [] [PyStr NavigableString ''Part one'']],
         Tag 5 ''h3'' [(''id'', Str [])] [PyStr NavigableString ''Notes'']]],
    detached = [], next_id = 6\<rparr>"

definition redirect_href :: string where
  "redirect_href = ''http://www.bibletexts.com/cgi/redirect?to=http://www.bibletexts.com/topical.html''"

definition links_page :: soup where
  "links_page = \<lparr>doc =
      [Tag 1 ''p'' []
        [Tag 2 ''a'' [(''href'', Str redirect_href)] [PyStr NavigableString ''Topics''],
         Tag 3 ''a'' [(''href'', Str ''http://www.bibletexts.com/topical.html'')] [],
         Tag 4 ''a'' [(''href'', Str ''http://example.com'')] [],
         Tag 5 ''a'' [(''href'', Str ''#top'')] []]],
    detached = [], next_id = 6\<rparr>"





text \<open>
  Two tables of one row and one cell: the first has an empty \<open>cellpadding\<close> attribute, the
  second an empty \<open>bgcolor\<close> attribute.
\<close>

definition padded_tables :: soup where
  "padded_tables = \<lparr>doc =
      [Tag 1 ''table'' [(''cellpadding'', Str [])]
         [Tag 2 ''tr'' [] [Tag 3 ''td'' [] [PyStr NavigableString ''A'']]],
       Tag 4 ''table'' [(''bgcolor'', Str [])]
         [Tag 5 ''tr'' [] [Tag 6 ''td'' [] [PyStr NavigableString ''B'']]]],
    detached = [], next_id = 7\<rparr>"

section \<open>Forests\<close>




lemma find_all_subset: "set (find_all P F) \<subseteq> set (ids F)"
  by (induction P F rule: find_all.induct) auto

lemma lookup_None_iff: "lookup i F = None \<longleftrightarrow> i \<notin> set (ids F)"
  by (induction i F rule: lookup.induct) (auto split: option.splits)

lemma lookup_append:
  "lookup i (A @ B) = (case lookup i A of Some x \<Rightarrow> Some x | None \<Rightarrow> lookup i B)"
  by (induction i A rule: lookup.induct) (auto split: option.splits)

lemma lookup_s_in_doc: "i \<in> set (ids (doc s)) \<Longrightarrow> lookup_s i s = lookup i (doc s)"
  using lookup_None_iff[of i "doc s"] by (auto simp: lookup_s_def lookup_append split: option.splits)

lemma first_in_set: "first xs = Some x \<Longrightarrow> x \<in> set xs"
  by (cases xs) (auto simp: first_def)

subsection \<open>Destroying the tags that a search found\<close>

lemma without_ids_empty: "without_ids {} F = F"
  by (induction F rule: ids.induct) auto

lemma without_ids_remove: "without_ids S (update i (\<lambda>_. []) F) = without_ids (insert i S) F"
  by (induction F rule: ids.induct) auto

lemma fold_remove: "fold (\<lambda>i. update i (\<lambda>_. [])) js F = without_ids (set js) F"
proof (induction js arbitrary: F)
  case Nil
  then show ?case by (simp add: without_ids_empty)
next
  case (Cons i js)
  have "without_ids (set js) (update i (\<lambda>_. []) F) = without_ids (insert i (set js)) F"
    by (rule without_ids_remove)
  then show ?case using Cons by simp
qed

lemma without_ids_prune:
  "distinct (ids F) \<Longrightarrow> \<forall>i \<in> set (ids F). i \<in> S \<longleftrightarrow> i \<in> set (find_all P F)
   \<Longrightarrow> without_ids S F = prune P F"
proof (induction F rule: ids.induct)
  case 1
  then show ?case by simp
next
  case (2 k t ns)
  then show ?case by simp
next
  case (3 i n a cs ns)
  have sub1: "set (find_all P cs) \<subseteq> set (ids cs)" and sub2: "set (find_all P ns) \<subseteq> set (ids ns)"
    by (rule find_all_subset)+
  from 3(3) have d: "distinct (ids cs)" "distinct (ids ns)" "i \<notin> set (ids cs)" "i \<notin> set (ids ns)"
    "set (ids cs) \<inter> set (ids ns) = {}" by auto
  have a: "\<forall>j \<in> set (ids cs). j \<in> S \<longleftrightarrow> j \<in> set (find_all P cs)"
    using 3(4) d sub1 sub2 by auto
  have b: "\<forall>j \<in> set (ids ns). j \<in> S \<longleftrightarrow> j \<in> set (find_all P ns)"
    using 3(4) d sub1 sub2 by auto
  have c: "i \<in> S \<longleftrightarrow> P n a" using 3(4) d sub1 sub2 by auto
  show ?case using 3(1)[OF d(1) a] 3(2)[OF d(2) b] c by simp
qed

lemma fold_decompose_prune:
  "distinct (ids F) \<Longrightarrow> fold (\<lambda>i. update i (\<lambda>_. [])) (find_all P F) F = prune P F"
  by (simp add: fold_remove without_ids_prune)

subsection \<open>Evaluating a sequence of steps\<close>

lemma and_then_Inl: "and_then (Inl e) f = Inl e"
  by (simp add: and_then_def)

lemma and_then_Inr: "and_then (Inr x) f = f x"
  by (simp add: and_then_def)

lemma and_then_weak_cong: "m = m' \<Longrightarrow> and_then m f = and_then m' f"
  by simp

section \<open>Setting attributes\<close>

lemma ids_update_attrs: "ids (update i (map_attrs g) F) = ids F"
  by (induction i "map_attrs g" F rule: update.induct) auto

lemma find_all_named_update_attrs:
  "find_all (named N) (update i (map_attrs g) F) = find_all (named N) F"
  by (induction i "map_attrs g" F rule: update.induct) (auto simp: named_def)

lemma lookup_update_attrs:
  "map_option tag_attrs (lookup j (update i (map_attrs g) F))
     = (if i = j then map_option (\<lambda>t. g (tag_attrs t)) (lookup j F)
        else map_option tag_attrs (lookup j F))"
  by (induction i "map_attrs g" F rule: update.induct) (auto split: option.splits)

lemma doc_set_attr: "doc (set_attr i k v s) = update i (map_attrs (AList.update k v)) (doc s)"
  by (simp add: set_attr_def update_s_def)

lemma ids_doc_set_attr: "ids (doc (set_attr i k v s)) = ids (doc s)"
  by (simp add: doc_set_attr ids_update_attrs)

lemma get_attr_doc:
  "j \<in> set (ids (doc s)) \<Longrightarrow>
   get_attr j k s = (case map_option tag_attrs (lookup j (doc s)) of None \<Rightarrow> None | Some a \<Rightarrow> map_of a k)"
  by (simp add: get_attr_def lookup_s_in_doc split: option.splits)

lemma get_attr_set_attr:
  assumes "j \<in> set (ids (doc s))"
  shows "get_attr j k (set_attr i k' v s) = (if i = j \<and> k = k' then Some v else get_attr j k s)"
proof -
  have j': "j \<in> set (ids (doc (set_attr i k' v s)))" using assms by (simp add: ids_doc_set_attr)
  obtain t where t: "lookup j (doc s) = Some t"
    using assms lookup_None_iff[of j "doc s"] by (cases "lookup j (doc s)") auto
  show ?thesis
    unfolding get_attr_doc[OF j'] get_attr_doc[OF assms] doc_set_attr lookup_update_attrs
    using t by (simp add: update_conv')
qed

lemma distinct_find_all: "distinct (ids F) \<Longrightarrow> distinct (find_all P F)"
proof (induction P F rule: find_all.induct)
  case (3 P i n a cs ns)
  have "set (find_all P cs) \<subseteq> set (ids cs)" "set (find_all P ns) \<subseteq> set (ids ns)"
    by (rule find_all_subset)+
  then show ?case using 3 by auto
qed simp_all

lemma find_all_conj:
  "distinct (ids F) \<Longrightarrow>
   set (find_all P F) \<inter> set (find_all Q F) = set (find_all (\<lambda>n a. P n a \<and> Q n a) F)"
proof (induction F rule: ids.induct)
  case (3 i n a cs ns)
  have sub: "set (find_all P cs) \<subseteq> set (ids cs)" "set (find_all P ns) \<subseteq> set (ids ns)"
    "set (find_all Q cs) \<subseteq> set (ids cs)" "set (find_all Q ns) \<subseteq> set (ids ns)"
    by (rule find_all_subset)+
  from 3(3) have d: "distinct (ids cs)" "distinct (ids ns)" "i \<notin> set (ids cs)" "i \<notin> set (ids ns)"
    "set (ids cs) \<inter> set (ids ns) = {}" by auto
  show ?case using 3(1)[OF d(1)] 3(2)[OF d(2)] d sub by auto
qed simp_all

lemma find_all_never: "(\<And>n a. \<not> P n a) \<Longrightarrow> find_all P F = []"
  by (induction P F rule: find_all.induct) auto

lemma find_all_disjoint:
  assumes "distinct (ids F)" "\<And>n a. \<not> (P n a \<and> Q n a)"
  shows "set (find_all P F) \<inter> set (find_all Q F) = {}"
  using find_all_conj[OF assms(1), of P Q] find_all_never[of "\<lambda>n a. P n a \<and> Q n a" F] assms(2)
  by simp

lemma add_heading_id_ids: "ids (doc (add_heading_id ih s)) = ids (doc s)"
  by (cases ih) (simp add: add_heading_id_def ids_doc_set_attr)

lemma add_heading_id_get:
  "j \<in> set (ids (doc s)) \<Longrightarrow>
   get_attr j k (add_heading_id (i, h) s) =
     (if j = h \<and> k = ''id'' \<and> \<not> truthy (get_attr h ''id'' s)
      then Some (Str (''heading-'' @ str_nat i)) else get_attr j k s)"
  by (auto simp: add_heading_id_def get_attr_set_attr)

lemma fold_heading_ids_ids:
  "ids (doc (fold add_heading_id (enumerate n hs) s)) = ids (doc s)"
  by (induction hs arbitrary: n s) (simp_all add: add_heading_id_ids)

lemma fold_heading_ids_other:
  "j \<in> set (ids (doc s)) \<Longrightarrow> j \<notin> set hs \<or> k \<noteq> ''id'' \<Longrightarrow>
   get_attr j k (fold add_heading_id (enumerate n hs) s) = get_attr j k s"
proof (induction hs arbitrary: n s)
  case Nil
  then show ?case by simp
next
  case (Cons h hs)
  have "j \<in> set (ids (doc (add_heading_id (n, h) s)))"
    using Cons.prems(1) by (simp add: add_heading_id_ids)
  moreover have "j \<notin> set hs \<or> k \<noteq> ''id''" using Cons.prems(2) by auto
  ultimately have "get_attr j k (fold add_heading_id (enumerate (Suc n) hs) (add_heading_id (n, h) s))
      = get_attr j k (add_heading_id (n, h) s)"
    by (rule Cons.IH)
  also have "\<dots> = get_attr j k s"
    using Cons.prems by (auto simp: add_heading_id_get)
  finally show ?case by simp
qed

lemma fold_heading_ids_nth:
  "distinct hs \<Longrightarrow> set hs \<subseteq> set (ids (doc s)) \<Longrightarrow> i < length hs \<Longrightarrow>
   get_attr (hs ! i) ''id'' (fold add_heading_id (enumerate n hs) s) =
     (if truthy (get_attr (hs ! i) ''id'' s) then get_attr (hs ! i) ''id'' s
      else Some (Str (''heading-'' @ str_nat (n + i))))"
proof (induction hs arbitrary: n s i)
  case Nil
  then show ?case by simp
next
  case (Cons h hs)
  let ?s' = "add_heading_id (n, h) s"
  have ids': "ids (doc ?s') = ids (doc s)" by (rule add_heading_id_ids)
  show ?case
  proof (cases i)
    case 0
    have "get_attr h ''id'' (fold add_heading_id (enumerate (Suc n) hs) ?s') = get_attr h ''id'' ?s'"
      by (rule fold_heading_ids_other) (use Cons.prems ids' in auto)
    then show ?thesis using 0 Cons.prems(2) by (auto simp: add_heading_id_get)
  next
    case (Suc i')
    then have i': "i' < length hs" using Cons.prems(3) by simp
    then have ne: "hs ! i' \<noteq> h" using Cons.prems(1) by auto
    have mem: "hs ! i' \<in> set (ids (doc s))" using Cons.prems(2) i' by auto
    have "get_attr (hs ! i') ''id'' (fold add_heading_id (enumerate (Suc n) hs) ?s') =
       (if truthy (get_attr (hs ! i') ''id'' ?s') then get_attr (hs ! i') ''id'' ?s'
        else Some (Str (''heading-'' @ str_nat (Suc n + i'))))"
      by (rule Cons.IH) (use Cons.prems ids' i' in auto)
    moreover have "get_attr (hs ! i') ''id'' ?s' = get_attr (hs ! i') ''id'' s"
      using mem ne by (simp add: add_heading_id_get)
    ultimately show ?thesis using Suc by simp
  qed
qed

lemma add_default_ids: "ids (doc (add_default key v t s)) = ids (doc s)"
  by (simp add: add_default_def ids_doc_set_attr)

lemma add_default_get:
  "j \<in> set (ids (doc s)) \<Longrightarrow> k \<noteq> key \<Longrightarrow> get_attr j k (add_default key v t s) = get_attr j k s"
  by (simp add: add_default_def get_attr_set_attr)

lemma fold_add_default_ids: "ids (doc (fold (add_default key v) ts s)) = ids (doc s)"
  by (induction ts arbitrary: s) (simp_all add: add_default_ids)

lemma fold_add_default_get:
  "j \<in> set (ids (doc s)) \<Longrightarrow> k \<noteq> key \<Longrightarrow>
   get_attr j k (fold (add_default key v) ts s) = get_attr j k s"
  by (induction ts arbitrary: s) (simp_all add: add_default_ids add_default_get)

lemma find_all_named_set_attr:
  "find_all (named N) (doc (set_attr i k v s)) = find_all (named N) (doc s)"
  by (simp add: doc_set_attr find_all_named_update_attrs)

lemma fold_heading_ids_find:
  "find_all (named N) (doc (fold add_heading_id (enumerate n hs) s)) = find_all (named N) (doc s)"
  by (induction hs arbitrary: n s)
     (simp_all add: add_heading_id_def find_all_named_set_attr)

lemma fold_add_default_find:
  "find_all (named N) (doc (fold (add_default key v) ts s)) = find_all (named N) (doc s)"
  by (induction ts arbitrary: s) (simp_all add: add_default_def find_all_named_set_attr)

text \<open>
  Claim C5. After the accessibility pass the headings are the headings of before, and each
  has a non-empty id: its own when it had a non-empty one, else \<open>heading-i\<close> for the index \<open>i\<close> of
  the heading among all headings of the document, in document order.
\<close>

theorem every_heading_gets_an_id:
  assumes ids: "distinct (ids (doc s))"
  shows "headings_of (add_accessibility s) = headings_of s
     \<and> (\<forall>i < length (headings_of s).
          truthy (get_attr (headings_of s ! i) ''id'' (add_accessibility s))
          \<and> get_attr (headings_of s ! i) ''id'' (add_accessibility s) =
              (if truthy (get_attr (headings_of s ! i) ''id'' s)
               then get_attr (headings_of s ! i) ''id'' s
               else Some (Str (''heading-'' @ str_nat i))))"
proof -
  define s1 where "s1 = (case soup_find (named [''body'']) s of
                  Some main_content \<Rightarrow>
                    set_attr main_content ''id'' (Str ''main-content'')
                      (set_attr main_content ''role'' (Str ''main'') s)
                | None \<Rightarrow> s)"
  define s2 where "s2 = fold add_heading_id (enumerate 0 (headings_of s)) s1"
  define s3 where "s3 = fold (add_default ''alt'' ''Image'') (find_all (named [''img'']) (doc s2)) s2"
  have ids1: "ids (doc s1) = ids (doc s)"
    by (simp add: s1_def ids_doc_set_attr split: option.splits)
  have hs1: "find_all (named N) (doc s1) = find_all (named N) (doc s)" for N
    by (simp add: s1_def find_all_named_set_attr split: option.splits)
  have res: "add_accessibility s =
      fold (add_default ''tabindex'' ''0'') (find_all (named [''a'']) (doc s3)) s3"
    unfolding add_accessibility_def Let_def s3_def s2_def s1_def[symmetric] headings_of_def hs1
    by (rule refl)
  have ids2: "ids (doc s2) = ids (doc s)" by (simp add: s2_def fold_heading_ids_ids ids1)
  have ids3: "ids (doc s3) = ids (doc s)" by (simp add: s3_def fold_add_default_ids ids2)
  have same: "headings_of (add_accessibility s) = headings_of s"
    by (simp add: res headings_of_def fold_add_default_find s3_def s2_def fold_heading_ids_find hs1)
  have sub: "set (headings_of s) \<subseteq> set (ids (doc s))"
    by (simp add: headings_of_def find_all_subset)
  have dist: "distinct (headings_of s)"
    using ids by (simp add: headings_of_def distinct_find_all)
  have body: "get_attr h ''id'' s1 = get_attr h ''id'' s" if "h \<in> set (headings_of s)" for h
  proof (cases "soup_find (named [''body'']) s")
    case None
    then show ?thesis by (simp add: s1_def)
  next
    case (Some b)
    have "set (find_all (named [''body'']) (doc s)) \<inter> set (find_all (named heading_names) (doc s)) = {}"
      by (rule find_all_disjoint[OF ids]) (auto simp: named_def heading_names_def)
    moreover have "b \<in> set (find_all (named [''body'']) (doc s))"
      using Some by (auto simp: soup_find_def dest: first_in_set)
    ultimately have "b \<noteq> h" using that by (auto simp: headings_of_def)
    moreover have "h \<in> set (ids (doc s))" using that sub by auto
    ultimately show ?thesis using Some
      by (simp add: s1_def get_attr_set_attr ids_doc_set_attr)
  qed
  have "truthy (get_attr (headings_of s ! i) ''id'' (add_accessibility s))
          \<and> get_attr (headings_of s ! i) ''id'' (add_accessibility s) =
              (if truthy (get_attr (headings_of s ! i) ''id'' s)
               then get_attr (headings_of s ! i) ''id'' s
               else Some (Str (''heading-'' @ str_nat i)))" if i: "i < length (headings_of s)" for i
  proof -
    let ?h = "headings_of s ! i"
    have hm: "?h \<in> set (headings_of s)" using i by simp
    then have hi: "?h \<in> set (ids (doc s))" using sub by auto
    have "get_attr ?h ''id'' (add_accessibility s) = get_attr ?h ''id'' s3"
      unfolding res by (rule fold_add_default_get) (use hi ids3 in auto)
    also have "\<dots> = get_attr ?h ''id'' s2"
      unfolding s3_def by (rule fold_add_default_get) (use hi ids2 in auto)
    also have "\<dots> = (if truthy (get_attr ?h ''id'' s1) then get_attr ?h ''id'' s1
        else Some (Str (''heading-'' @ str_nat (0 + i))))"
      unfolding s2_def by (rule fold_heading_ids_nth) (use dist sub ids1 i in auto)
    finally have "get_attr ?h ''id'' (add_accessibility s) =
        (if truthy (get_attr ?h ''id'' s) then get_attr ?h ''id'' s
         else Some (Str (''heading-'' @ str_nat i)))"
      using body[OF hm] by simp
    then show ?thesis by simp
  qed
  then show ?thesis using same by blast
qed

lemma headings_page_ids: "distinct (ids (doc headings_page))"
  by code_simp

theorem every_heading_gets_an_id_witness:
  "distinct (ids (doc headings_page))
   \<and> headings_of headings_page = [2, 4, 5]
   \<and> get_attr 2 ''id'' headings_page = Some (Str ''intro'')
   \<and> get_attr 4 ''id'' headings_page = None
   \<and> get_attr 5 ''id'' headings_page = Some (Str [])
   \<and> headings_of (add_accessibility headings_page) = [2, 4, 5]
   \<and> get_attr 2 ''id'' (add_accessibility headings_page) = Some (Str ''intro'')
   \<and> get_attr 4 ''id'' (add_accessibility headings_page) = Some (Str ''heading-1'')
   \<and> get_attr 5 ''id'' (add_accessibility headings_page) = Some (Str ''heading-2'')"
proof -
  have a: "headings_of headings_page = [2, 4, 5]" by code_simp
  have b: "get_attr 2 ''id'' headings_page = Some (Str ''intro'')"
    "get_attr 4 ''id'' headings_page = None" "get_attr 5 ''id'' headings_page = Some (Str [])"
    by code_simp+
  have c: "str_nat 1 = ''1''" "str_nat 2 = ''2''" by code_simp+
  from every_heading_gets_an_id[OF headings_page_ids]
  have "headings_of (add_accessibility headings_page) = headings_of headings_page"
    and "\<forall>i < length (headings_of headings_page).
          get_attr (headings_of headings_page ! i) ''id'' (add_accessibility headings_page) =
              (if truthy (get_attr (headings_of headings_page ! i) ''id'' headings_page)
               then get_attr (headings_of headings_page ! i) ''id'' headings_page
               else Some (Str (''heading-'' @ str_nat i)))"
    by blast+
  from this(1) this(2)[rule_format, of 0] this(2)[rule_format, of 1] this(2)[rule_format, of 2]
  show ?thesis using headings_page_ids a b c by simp
qed

section \<open>Structural normalisation\<close>
















lemma ids_skeleton: "ids (skeleton n K # F) = n # Suc n # Suc (Suc n) # ids K @ ids F"
  by (simp add: skeleton_def)






















section \<open>Link rewriting\<close>

text \<open>
  Claim C3. An href that begins with the site origin is to become the rest of the URL after
  that prefix. The code calls \<open>href.replace(origin, '')\<close>, which deletes every occurrence of
  the origin: the href of the first anchor of the example, a redirect to another page of the
  site, loses the origin inside its query too. The other anchors are as the claim says.
\<close>

theorem update_links_deletes_every_origin:
  "startswith redirect_href site_origin
   \<and> drop (length site_origin) redirect_href
        = ''cgi/redirect?to=http://www.bibletexts.com/topical.html''
   \<and> (case update_links links_page of
         Inl e \<Rightarrow> False
       | Inr s \<Rightarrow>
           get_attr 2 ''href'' s = Some (Str ''cgi/redirect?to=topical.html'')
           \<and> get_attr 3 ''href'' s = Some (Str ''topical.html'')
           \<and> get_attr 4 ''href'' s = Some (Str ''http://example.com'')
           \<and> get_attr 4 ''target'' s = Some (Str ''_blank'')
           \<and> get_attr 4 ''rel'' s = Some (Str ''noopener noreferrer'')
           \<and> get_attr 5 ''href'' s = Some (Str ''#top'')
           \<and> get_attr 5 ''target'' s = None)"
  by code_simp

section \<open>Table conversion\<close>

text \<open>
  Claim C2. A table that has a \<open>cellpadding\<close> attribute is to be replaced by a container. The
  code tests \<open>table.get('cellpadding')\<close> for truth, so an attribute with the empty value does
  not count, while \<open>bgcolor\<close> is tested for presence: of the two tables of the example, each with
  one empty attribute, the first stays a table and the second becomes a container whose one row
  of one cell is a section carrying the children of the cell.
\<close>

theorem table_with_empty_cellpadding_is_kept:
  "map_of [(''cellpadding'', Str [])] ''cellpadding'' \<noteq> None
   \<and> \<not> is_layout_table [(''cellpadding'', Str [])]
   \<and> is_layout_table [(''bgcolor'', Str [])]
   \<and> convert_tables padded_tables =
       Inr \<lparr>doc =
              [Tag 1 ''table'' [(''cellpadding'', Str [])]
                 [Tag 2 ''tr'' [] [Tag 3 ''td'' [] [PyStr NavigableString ''A'']]],
               Tag 7 ''div'' [(''class'', Lst [''modern-layout''])]
                 [Tag 8 ''section'' [(''class'', Lst [''content-section''])]
                    [PyStr NavigableString ''B'']]],
            detached =
              [Tag 4 ''table'' [(''bgcolor'', Str [])] [Tag 5 ''tr'' [] [Tag 6 ''td'' [] []]]],
            next_id = 9\<rparr>"
  by (simp add: padded_tables_def startswith_def py_replace_def is_space_def strip_def lower_def lower_char_def path_name_def path_str_def lookup_s_def update_s_def has_parent_def named_def a_href_def tag_find_all_def first_def tag_find_def soup_find_def get_attr_def set_attr_def new_tag_def tag_extract_def tag_insert_def tag_append_def extend_contents_def set_string_def unwrap_def replace_with_def decompose_def soup_clear_def soup_append_def heading_names_def and_then_Inl and_then_Inr allow_list_def move_to_body_def convert_to_html5_def add_modern_structure_def is_layout_table_def convert_row_def convert_table_def convert_tables_def add_heading_id_def add_default_def add_accessibility_def add_class_def container_table_def responsive_paragraph_def external_link_def add_responsive_classes_def site_origin_def update_link_def update_links_def transform_def Let_def
      cong: let_weak_cong prod.case_cong_weak and_then_weak_cong split del: if_split)

section \<open>The search indexer\<close>

lemma doc_fold_decompose: "doc (fold decompose js s) = fold (\<lambda>i. update i (\<lambda>_. [])) js (doc s)"
  by (induction js arbitrary: s) (simp_all add: decompose_def update_s_def)

lemma extract_content_doc:
  "distinct (ids (doc s)) \<Longrightarrow> doc (snd (extract_content s)) = visible (doc s)"
  by (simp add: extract_content_def Let_def doc_fold_decompose fold_decompose_prune visible_def)

lemma meta_tokens_doc:
  assumes "doc s = doc s'"
  shows "meta_tokens s = meta_tokens s'"
proof (cases "soup_find meta_keywords s")
  case None
  then show ?thesis using assms by (simp add: meta_tokens_def soup_find_def)
next
  case (Some m)
  then have "m \<in> set (ids (doc s))"
    using find_all_subset[of meta_keywords "doc s"] by (auto simp: soup_find_def dest: first_in_set)
  then have "lookup_s m s = lookup_s m s'"
    using assms by (simp add: lookup_s_in_doc)
  then show ?thesis using Some assms by (simp add: meta_tokens_def soup_find_def get_attr_def)
qed

lemma page_record_InrD:
  assumes "page_record ord p m s = Inr r"
  shows "extract_links (snd (extract_content s)) = Inr (links r)"
    and "extract_keywords ord (snd (extract_content s)) = Inr (page_keywords r)"
    and "title r = extract_title s"
    and "content r = fst (extract_content s)"
    and "headings r = extract_headings (snd (extract_content s))"
    and "page_url r = get_relative_url p"
    and "m = Inr (last_modified r)"
  using assms
  by (auto simp: page_record_def Let_def split: prod.splits sum.splits)

lemma page_record_InrI:
  assumes "extract_links (snd (extract_content s)) = Inr ls"
    and "extract_keywords ord (snd (extract_content s)) = Inr ks"
  shows "page_record ord p (Inr m) s =
     Inr \<lparr>title = extract_title s, page_url = get_relative_url p,
          content = fst (extract_content s),
          headings = extract_headings (snd (extract_content s)),
          links = ls, page_keywords = ks, last_modified = m\<rparr>"
  using assms by (auto simp: page_record_def Let_def split: prod.splits)

lemma extract_keywords_set:
  assumes "set_listing ord" and "set_listing ord'" and "extract_keywords ord s = Inr ks"
  shows "\<exists>ks'. extract_keywords ord' s = Inr ks' \<and> set ks' = set ks"
  using assms by (auto simp: extract_keywords_def set_listing_def split: sum.splits)

lemma links_loop_Inr:
  "links_loop s ls acc = Inr r \<Longrightarrow> r = acc @ map (link_of s) (filter (kept_link s) ls)"
proof (induction ls arbitrary: acc)
  case Nil
  then show ?case by simp
next
  case (Cons l ls)
  from Cons.prems obtain h where h: "get_attr l ''href'' s = Some (Str h)"
    by (auto split: option.splits attr_value.splits)
  show ?case
  proof (cases "\<not> startswith h ''http'' \<and> \<not> startswith h ''#''")
    case True
    then have "links_loop s ls (acc @ [\<lparr>url = h, link_text = strip (tag_text l s)\<rparr>]) = Inr r"
      using Cons.prems h by simp
    from Cons.IH[OF this] show ?thesis using True h
      by (simp add: link_of_def kept_link_def href_of_def)
  next
    case False
    then have "links_loop s ls acc = Inr r" using Cons.prems h by auto
    from Cons.IH[OF this] show ?thesis using False h
      by (auto simp add: link_of_def kept_link_def href_of_def)
  qed
qed

lemma link_of_doc:
  assumes "doc s = doc s'" "l \<in> set (ids (doc s))"
  shows "link_of s l = link_of s' l" "kept_link s l = kept_link s' l"
proof -
  have "lookup_s l s = lookup_s l s'" using assms by (simp add: lookup_s_in_doc)
  then show "link_of s l = link_of s' l" "kept_link s l = kept_link s' l"
    by (simp_all add: link_of_def kept_link_def href_of_def get_attr_def tag_text_def)
qed

lemma psalm_page_record:
  "page_record remdups [''psalm23.html''] (Inr 0) psalm_page = Inr psalm_record"
  by code_simp

lemma psalm_page_ids: "distinct (ids (doc psalm_page))"
  by code_simp

lemma set_listing_remdups: "set_listing remdups"
  by (simp add: set_listing_def)

text \<open>
  Claim C6. Two runs of the indexer over an unchanged file: the text read and its parse are
  the same; the order in which \<open>list(set(...))\<close> lists the keyword set and the modification
  time may differ. If the first run adds a record, so does the second, and the two records have
  the same title, url, content, headings and links and the same keywords (a set, as the data
  model has it); \<open>last_modified\<close> is the time each run read.
\<close>

theorem index_file_repeatable:
  assumes same_text: "read_text e1 f = read_text e2 f"
    and same_parse: "parse_html e1 = parse_html e2"
    and o1: "set_listing (set_order e1)"
    and o2: "set_listing (set_order e2)"
    and t2: "stat_mtime e2 f = Inr t2"
    and run: "index_file e1 f idx1 = Inr idx1'"
  shows "\<exists>r1 r2. idx1' = idx1 @ [r1] \<and> index_file e2 f idx2 = Inr (idx2 @ [r2])
           \<and> title r1 = title r2 \<and> page_url r1 = page_url r2 \<and> content r1 = content r2
           \<and> headings r1 = headings r2 \<and> links r1 = links r2
           \<and> set (page_keywords r1) = set (page_keywords r2)
           \<and> stat_mtime e1 f = Inr (last_modified r1) \<and> last_modified r2 = t2"
proof -
  from run obtain r1 where r1: "page_of_file e1 f = Inr r1" and i1: "idx1' = idx1 @ [r1]"
    by (auto simp: index_file_def split: sum.splits)
  from r1 obtain ft s where ft: "read_text e1 f = Inr ft" and s: "parse_html e1 ft = Inr s"
    and rec: "page_record (set_order e1) f (stat_mtime e1 f) s = Inr r1"
    by (auto simp: page_of_file_def split: sum.splits)
  let ?s1 = "snd (extract_content s)"
  note d = page_record_InrD[OF rec]
  from extract_keywords_set[OF o1 o2 d(2)] obtain ks' where
    ks': "extract_keywords (set_order e2) ?s1 = Inr ks'" "set ks' = set (page_keywords r1)"
    by blast
  define r2 where "r2 = \<lparr>title = extract_title s, page_url = get_relative_url f,
          content = fst (extract_content s), headings = extract_headings ?s1,
          links = links r1, page_keywords = ks', last_modified = t2\<rparr>"
  have "page_record (set_order e2) f (Inr t2) s = Inr r2"
    unfolding r2_def by (rule page_record_InrI[OF d(1) ks'(1)])
  then have "page_of_file e2 f = Inr r2"
    using ft s same_text same_parse t2 by (simp add: page_of_file_def)
  then have "index_file e2 f idx2 = Inr (idx2 @ [r2])"
    by (simp add: index_file_def)
  moreover have "title r1 = title r2" "page_url r1 = page_url r2" "content r1 = content r2"
    "headings r1 = headings r2" "links r1 = links r2"
    "set (page_keywords r1) = set (page_keywords r2)" "last_modified r2 = t2"
    using d ks'(2) by (simp_all add: r2_def)
  ultimately show ?thesis using i1 d(7) by blast
qed

lemma run_one_psalm: "index_file run_one [''psalm23.html''] [] = Inr [psalm_record]"
  using psalm_page_record by (simp add: index_file_def page_of_file_def run_one_def)

lemma run_two_psalm: "index_file run_two [''psalm23.html''] [] = Inr [psalm_record_two]"
  by code_simp

lemma runs_agree:
  "read_text run_one [''psalm23.html''] = read_text run_two [''psalm23.html'']"
  "parse_html run_one = parse_html run_two"
  "set_listing (set_order run_one)" "set_listing (set_order run_two)"
  "stat_mtime run_two [''psalm23.html''] = Inr 7"
  by (simp_all add: run_one_def run_two_def set_listing_def)

theorem index_file_repeatable_witness:
  "read_text run_one [''psalm23.html''] = read_text run_two [''psalm23.html'']
   \<and> parse_html run_one = parse_html run_two
   \<and> set_listing (set_order run_one) \<and> set_listing (set_order run_two)
   \<and> stat_mtime run_two [''psalm23.html''] = Inr 7
   \<and> index_file run_one [''psalm23.html''] [] = Inr [psalm_record]
   \<and> index_file run_two [''psalm23.html''] [] = Inr [psalm_record_two]
   \<and> title psalm_record = title psalm_record_two
   \<and> content psalm_record = content psalm_record_two
   \<and> headings psalm_record = headings psalm_record_two
   \<and> links psalm_record = links psalm_record_two
   \<and> set (page_keywords psalm_record) = set (page_keywords psalm_record_two)"
  using index_file_repeatable[OF runs_agree run_one_psalm, of "[]"] runs_agree
    run_one_psalm run_two_psalm
  by auto

text \<open>
  What \<open>_extract_links\<close> computes. The links of a record are the anchors with an href, outside
  script and style subtrees, whose href starts neither with the four letters \<open>http\<close> nor with
  \<open>#\<close>; each gives its raw href and its trimmed text, in document order.
\<close>

lemma links_are_hrefs_not_starting_http_or_hash:
  assumes ids: "distinct (ids (doc s))"
    and rec: "page_record ord p m s = Inr r"
  shows "links r = map (link_of (s\<lparr>doc := visible (doc s)\<rparr>))
           (filter (kept_link (s\<lparr>doc := visible (doc s)\<rparr>)) (find_all a_href (visible (doc s))))"
proof -
  let ?s1 = "snd (extract_content s)" and ?v = "s\<lparr>doc := visible (doc s)\<rparr>"
  have d: "doc ?s1 = visible (doc s)" using ids by (rule extract_content_doc)
  have "extract_links ?s1 = Inr (links r)" using rec by (rule page_record_InrD)
  then have l: "links r = map (link_of ?s1) (filter (kept_link ?s1) (find_all a_href (visible (doc s))))"
    using links_loop_Inr[of ?s1 "find_all a_href (doc ?s1)" "[]" "links r"] d
    by (simp add: extract_links_def)
  have sub: "set (find_all a_href (visible (doc s))) \<subseteq> set (ids (doc ?s1))"
    using find_all_subset[of a_href "doc ?s1"] d by simp
  have e: "\<And>l. l \<in> set (find_all a_href (visible (doc s))) \<Longrightarrow>
       link_of ?s1 l = link_of ?v l \<and> kept_link ?s1 l = kept_link ?v l"
    using link_of_doc[of ?s1 ?v] sub d by auto
  have "filter (kept_link ?s1) (find_all a_href (visible (doc s)))
      = filter (kept_link ?v) (find_all a_href (visible (doc s)))"
    by (rule filter_cong) (use e in auto)
  moreover have "map (link_of ?s1) (filter (kept_link ?v) (find_all a_href (visible (doc s))))
     = map (link_of ?v) (filter (kept_link ?v) (find_all a_href (visible (doc s))))"
    by (rule map_cong) (use e in auto)
  ultimately show ?thesis using l by simp
qed

text \<open>
  Claim C7. The links are to be the anchors whose href is neither an absolute http(s) URL nor
  a pure fragment, and \<open>_extract_links\<close> is documented to extract all internal links. Its guard
  is a test for the four letters \<open>http\<close>: the href \<open>httpd.html\<close> of the example page is neither
  an absolute http(s) URL nor a pure fragment, and its anchor is not among the links.
\<close>

theorem relative_href_starting_http_is_dropped:
  "7 \<in> set (find_all a_href (doc psalm_page))
   \<and> get_attr 7 ''href'' psalm_page = Some (Str ''httpd.html'')
   \<and> \<not> absolute_http_url ''httpd.html'' \<and> \<not> pure_fragment ''httpd.html''
   \<and> page_record remdups [''psalm23.html''] (Inr 0) psalm_page = Inr psalm_record
   \<and> ''httpd.html'' \<notin> url ` set (links psalm_record)"
proof -
  have "7 \<in> set (find_all a_href (doc psalm_page))
     \<and> get_attr 7 ''href'' psalm_page = Some (Str ''httpd.html'')"
    by code_simp
  moreover have "\<not> absolute_http_url ''httpd.html'' \<and> \<not> pure_fragment ''httpd.html''"
    by code_simp
  moreover have "''httpd.html'' \<notin> url ` set (links psalm_record)"
    by (simp add: psalm_record_def)
  ultimately show ?thesis using psalm_page_record by simp
qed

text \<open>
  Claim C10. The keyword scan reads the soup that content extraction left, which holds no
  script or style subtree: a vocabulary term that does not occur in the text outside those
  subtrees, and is no token of the keywords meta tag found outside them, is not among the
  keywords of the record.
\<close>

theorem keywords_ignore_script_and_style:
  assumes ids: "distinct (ids (doc s))"
    and ord: "set_listing ord"
    and rec: "page_record ord p m s = Inr r"
    and voc: "w \<in> set bible_terms"
    and vis: "\<not> contains (lower (get_text (visible (doc s)))) w"
    and meta: "meta_tokens (s\<lparr>doc := visible (doc s)\<rparr>) = Inr toks" "w \<notin> set toks"
  shows "w \<notin> set (page_keywords r)"
proof -
  let ?s1 = "snd (extract_content s)"
  have d: "doc ?s1 = visible (doc s)" using ids by (rule extract_content_doc)
  have "meta_tokens ?s1 = meta_tokens (s\<lparr>doc := visible (doc s)\<rparr>)"
    by (rule meta_tokens_doc) (simp add: d)
  then have mt: "meta_tokens ?s1 = Inr toks" using meta by simp
  have "extract_keywords ord ?s1 = Inr (page_keywords r)" using rec by (rule page_record_InrD)
  then have "page_keywords r =
      ord (toks @ filter (\<lambda>t. contains (lower (get_text (visible (doc s)))) t) bible_terms)"
    using mt d by (simp add: extract_keywords_def)
  then have "set (page_keywords r) =
      set toks \<union> {t \<in> set bible_terms. contains (lower (get_text (visible (doc s)))) t}"
    using ord by (auto simp: set_listing_def)
  then show ?thesis using vis meta by simp
qed

theorem keywords_ignore_script_and_style_witness:
  "distinct (ids (doc psalm_page)) \<and> set_listing remdups
   \<and> page_record remdups [''psalm23.html''] (Inr 0) psalm_page = Inr psalm_record
   \<and> ''gospel'' \<in> set bible_terms
   \<and> \<not> contains (lower (get_text (visible (doc psalm_page)))) ''gospel''
   \<and> meta_tokens (psalm_page\<lparr>doc := visible (doc psalm_page)\<rparr>) = Inr []
   \<and> ''gospel'' \<notin> set (page_keywords psalm_record)"
proof -
  have a: "''gospel'' \<in> set bible_terms" by code_simp
  have b: "\<not> contains (lower (get_text (visible (doc psalm_page)))) ''gospel''" by code_simp
  have c: "meta_tokens (psalm_page\<lparr>doc := visible (doc psalm_page)\<rparr>) = Inr []" by code_simp
  have e: "''gospel'' \<notin> set []" by simp
  from keywords_ignore_script_and_style[OF psalm_page_ids set_listing_remdups psalm_page_record a b c e]
  show ?thesis using psalm_page_ids set_listing_remdups psalm_page_record a b c by simp
qed

section \<open>Batch runs\<close>




lemma convert_steps_parse_error:
  "read_source env w f = Inr c \<Longrightarrow> parse_source env c = Inl e \<Longrightarrow>
   convert_steps env w f = (Some e, w)"
  by (simp add: convert_steps_def and_then_def)

lemma convert_steps_transform_error:
  "read_source env w f = Inr c \<Longrightarrow> parse_source env c = Inr s \<Longrightarrow> transform s = Inl e \<Longrightarrow>
   convert_steps env w f = (Some e, w)"
  by (simp add: convert_steps_def and_then_def)

lemma convert_steps_write_error:
  "read_source env w f = Inr c \<Longrightarrow> parse_source env c = Inr s \<Longrightarrow> transform s = Inr s' \<Longrightarrow>
   output_path env f = Inr out \<Longrightarrow> write_page env w out (doc s') = (Some e, w') \<Longrightarrow>
   convert_steps env w f = (Some e, w')"
  by (simp add: convert_steps_def and_then_def)

lemma index_files_append:
  "index_files env (gs1 @ gs2) idx = index_files env gs2 (index_files env gs1 idx)"
  by (induction gs1 arbitrary: idx) (simp_all split: sum.splits)




section \<open>Sitemap\<close>

lemma sitemap_loop_entries:
  "sitemap_loop acc files = acc @ concat (map sitemap_entry (sitemap_listed files))"
  by (induction files arbitrary: acc) (simp_all add: sitemap_listed_def)

text \<open>
  Claim C9. The sitemap holds one entry for every discovered file but the root index. The code
  leaves out every file named \<open>index.html\<close>, at any depth: for a site whose only files are
  \<open>sub/index.html\<close> and \<open>a.html\<close>, the page \<open>sub/index.html\<close> is not the root index and yet
  the sitemap holds the entry of \<open>a.html\<close> alone.
\<close>

theorem create_sitemap_omits_nested_index:
  "create_sitemap
     [\<lparr>parts = [''sub'', ''index.html''], mtime_text = ''1700000000.5''\<rparr>,
      \<lparr>parts = [''a.html''], mtime_text = ''1700000001.25''\<rparr>]
   = sitemap_header
     @ sitemap_entry \<lparr>parts = [''a.html''], mtime_text = ''1700000001.25''\<rparr>
     @ ''\<newline></urlset>''"
  by (simp add: create_sitemap_def path_name_def)

end
